theory Spec2Isabelle
  imports Complex_Main
begin

section \<open>Data model of the class MicToMorseCode (src/src/mic-to-morse.ts)\<close>

text \<open>
  The two string-literal union types of the source become datatypes, one constructor per
  literal, in the order of the source.
\<close>

datatype AudioState =
    NotListening
  | ListeningNoSound
  | ListeningSound
  | DotLength
  | DashLength
  | CharacterDelimiterLength
  | WordDelimiterLength

datatype ListeningState = NoSound | Sound

text \<open>
  The four callbacks of the field \<open>events\<close> are supplied by the caller. The model keeps a
  log of their invocations instead: one entry per call, with the arguments in the order the
  source passes them (\<open>current\<close> first, \<open>previous\<close> second). An argument read from an array
  by index is \<open>None\<close> where JavaScript would give \<open>undefined\<close>.
\<close>

datatype event =
    OnAudioStateChange AudioState AudioState
  | OnChange string string
  | OnCharacterEnd "string option"
  | OnWordEnd "string option"

text \<open>
  The fields of the class. JavaScript numbers are modelled as real numbers: subtraction and
  comparison are exact, and NaN and the infinities are left out. The fields
  \<open>listenInterval\<close> and \<open>microphoneSource\<close> belong to the timer and to the audio library and
  are not part of the decoder's state.
\<close>

record MicToMorseCode =
  currentAudioState :: AudioState
  lastState :: ListeningState
  fired :: "event list"
  soundStartTime :: real
  soundStopTime :: real
  morseSentence :: string
  threshold :: real
  audioTimeResolution :: real
  dotTime :: real
  dashTime :: real
  characterTime :: real
  wordTime :: real
  debounceTime :: real

text \<open>
  The two delimiter fields are initialised to one-character strings and never assigned
  again, so they are constants of the model.
\<close>

definition characterDelimiter :: char where
  "characterDelimiter = CHR '' ''"

definition wordDelimiter :: char where
  "wordDelimiter = CHR ''/''"

text \<open>
  The constructor. A parameter that the caller leaves out (\<open>None\<close>) takes its default, and
  the later defaults are computed from \<open>dotTime\<close> as the parameter list does.
\<close>

definition new_MicToMorseCode ::
  "real option \<Rightarrow> real option \<Rightarrow> real option \<Rightarrow> real option \<Rightarrow> real option \<Rightarrow>
   real option \<Rightarrow> real option \<Rightarrow> MicToMorseCode" where
  "new_MicToMorseCode thresholdArg audioTimeResolutionArg dotTimeArg dashTimeArg
       characterTimeArg wordTimeArg debounceTimeArg =
     (let th = (case thresholdArg of None \<Rightarrow> - 50 | Some v \<Rightarrow> v);
          atr = (case audioTimeResolutionArg of None \<Rightarrow> 50 | Some v \<Rightarrow> v);
          dt = (case dotTimeArg of None \<Rightarrow> 0.5 | Some v \<Rightarrow> v);
          dsh = (case dashTimeArg of None \<Rightarrow> dt * 3 | Some v \<Rightarrow> v);
          ch = (case characterTimeArg of None \<Rightarrow> dt * 4 | Some v \<Rightarrow> v);
          wd = (case wordTimeArg of None \<Rightarrow> dt * 6 | Some v \<Rightarrow> v);
          db = (case debounceTimeArg of None \<Rightarrow> dt / 2 | Some v \<Rightarrow> v)
      in \<lparr> currentAudioState = NotListening,
           lastState = NoSound,
           fired = [],
           soundStartTime = 0,
           soundStopTime = 0,
           morseSentence = [],
           threshold = th,
           audioTimeResolution = atr,
           dotTime = dt,
           dashTime = dsh,
           characterTime = ch,
           wordTime = wd,
           debounceTime = db \<rparr>)"

section \<open>The JavaScript string and array operations the class uses\<close>

text \<open>
  \<open>s.split(d)\<close> for a one-character separator: the pieces between the separators, in
  order; the empty string splits into one empty piece.
\<close>

fun js_split :: "string \<Rightarrow> char \<Rightarrow> string list" where
  "js_split [] d = [[]]"
| "js_split (c # cs) d =
     (if c = d then [] # js_split cs d
      else (case js_split cs d of
              [] \<Rightarrow> [[c]]
            | piece # pieces \<Rightarrow> (c # piece) # pieces))"

text \<open>\<open>a.pop()\<close>: the last element (or \<open>undefined\<close>) and the array that is left.\<close>

definition js_pop :: "'a list \<Rightarrow> 'a option \<times> 'a list" where
  "js_pop xs = (if xs = [] then (None, []) else (Some (last xs), butlast xs))"

text \<open>\<open>a[i]\<close> for an array or a string: \<open>undefined\<close> outside the range.\<close>

definition js_at :: "'a list \<Rightarrow> int \<Rightarrow> 'a option" where
  "js_at xs i = (if 0 \<le> i \<and> i < int (length xs) then Some (xs ! nat i) else None)"

text \<open>
  \<open>s.replace(/.$/, '')\<close>: the pattern matches one character at the very end of the string,
  unless that character is a line terminator, which the dot does not match. Of the four
  line terminators, line feed and carriage return are characters of the model's strings.
\<close>

definition isLineTerminator :: "char \<Rightarrow> bool" where
  "isLineTerminator c = (c = CHR 0x0A \<or> c = CHR 0x0D)"

definition replace_last_char :: "string \<Rightarrow> string" where
  "replace_last_char s =
     (if s = [] then s else if isLineTerminator (last s) then s else butlast s)"

section \<open>Events\<close>

definition fire :: "event \<Rightarrow> MicToMorseCode \<Rightarrow> MicToMorseCode" where
  "fire e d = d\<lparr>fired := fired d @ [e]\<rparr>"

definition emitSentenceChangeEvent :: "string \<Rightarrow> string \<Rightarrow> MicToMorseCode \<Rightarrow> MicToMorseCode" where
  "emitSentenceChangeEvent current previous d = fire (OnChange current previous) d"

definition emitAudioStateChangeEvent ::
  "AudioState \<Rightarrow> AudioState \<Rightarrow> MicToMorseCode \<Rightarrow> MicToMorseCode" where
  "emitAudioStateChangeEvent current previous d = fire (OnAudioStateChange current previous) d"

text \<open>
  An array is truthy in JavaScript, so the guard \<open>if (!characters) return\<close> never returns;
  the event is always fired, with the last piece of the split sentence.
\<close>

definition emitCharacterEndEvent :: "MicToMorseCode \<Rightarrow> MicToMorseCode" where
  "emitCharacterEndEvent d =
     (let characters = js_split (morseSentence d) characterDelimiter
      in fire (OnCharacterEnd (js_at characters (int (length characters) - 1))) d)"

definition emitWordEndEvent :: "MicToMorseCode \<Rightarrow> MicToMorseCode" where
  "emitWordEndEvent d =
     (let word = js_split (morseSentence d) wordDelimiter
      in fire (OnWordEnd (js_at word (int (length word) - 1))) d)"

section \<open>Setters and edit operations\<close>

definition setThreshold :: "real \<Rightarrow> MicToMorseCode \<Rightarrow> MicToMorseCode" where
  "setThreshold v d = d\<lparr>threshold := v\<rparr>"

definition setDotTime :: "real \<Rightarrow> MicToMorseCode \<Rightarrow> MicToMorseCode" where
  "setDotTime v d = d\<lparr>dotTime := v\<rparr>"

definition setDashTime :: "real \<Rightarrow> MicToMorseCode \<Rightarrow> MicToMorseCode" where
  "setDashTime v d = d\<lparr>dashTime := v\<rparr>"

definition setCharacterTime :: "real \<Rightarrow> MicToMorseCode \<Rightarrow> MicToMorseCode" where
  "setCharacterTime v d = d\<lparr>characterTime := v\<rparr>"

definition setWordTime :: "real \<Rightarrow> MicToMorseCode \<Rightarrow> MicToMorseCode" where
  "setWordTime v d = d\<lparr>wordTime := v\<rparr>"

definition setDebounceTime :: "real \<Rightarrow> MicToMorseCode \<Rightarrow> MicToMorseCode" where
  "setDebounceTime v d = d\<lparr>debounceTime := v\<rparr>"

definition setAudioTimeResolution :: "real \<Rightarrow> MicToMorseCode \<Rightarrow> MicToMorseCode" where
  "setAudioTimeResolution v d = d\<lparr>audioTimeResolution := v\<rparr>"

definition clearSentence :: "MicToMorseCode \<Rightarrow> MicToMorseCode" where
  "clearSentence d =
     (let previous = morseSentence d;
          d1 = d\<lparr>morseSentence := []\<rparr>
      in emitSentenceChangeEvent (morseSentence d1) previous d1)"

text \<open>
  \<open>deleteCharacter\<close> and \<open>deleteWord\<close> split the sentence into a fresh array and pop that
  array; the field \<open>morseSentence\<close> is not assigned. The popped array is the bound
  variable \<open>popped\<close>, which nothing reads.
\<close>

definition deleteCharacter :: "MicToMorseCode \<Rightarrow> MicToMorseCode" where
  "deleteCharacter d =
     (let previous = morseSentence d;
          popped = js_pop (js_split (morseSentence d) characterDelimiter)
      in emitSentenceChangeEvent (morseSentence d) previous d)"

definition deleteWord :: "MicToMorseCode \<Rightarrow> MicToMorseCode" where
  "deleteWord d =
     (let previous = morseSentence d;
          popped = js_pop (js_split (morseSentence d) wordDelimiter)
      in emitSentenceChangeEvent (morseSentence d) previous d)"

definition getMorseString :: "MicToMorseCode \<Rightarrow> string" where
  "getMorseString d = morseSentence d"

section \<open>The decoder\<close>

definition changeAudioState :: "AudioState \<Rightarrow> MicToMorseCode \<Rightarrow> MicToMorseCode" where
  "changeAudioState state d =
     (let previous = currentAudioState d
      in if previous = state then d
         else emitAudioStateChangeEvent state previous (d\<lparr>currentAudioState := state\<rparr>))"

definition wasSound :: "MicToMorseCode \<Rightarrow> bool" where
  "wasSound d = (lastState d = Sound)"

definition wasNoSound :: "MicToMorseCode \<Rightarrow> bool" where
  "wasNoSound d = (lastState d = NoSound)"

definition removeLastLetterFromMorse :: "MicToMorseCode \<Rightarrow> MicToMorseCode" where
  "removeLastLetterFromMorse d = d\<lparr>morseSentence := replace_last_char (morseSentence d)\<rparr>"

text \<open>The argument of \<open>isDelimiter\<close> is a character read by index, so it may be undefined.\<close>

definition isDelimiter :: "char option \<Rightarrow> bool" where
  "isDelimiter character =
     (character = Some wordDelimiter \<or> character = Some characterDelimiter)"

definition addCharacter :: "char \<Rightarrow> MicToMorseCode \<Rightarrow> MicToMorseCode" where
  "addCharacter character d =
     (let previous = morseSentence d;
          d1 = d\<lparr>morseSentence := morseSentence d @ [character]\<rparr>;
          d2 = (if character = wordDelimiter then emitWordEndEvent d1 else d1);
          d3 = (if character = characterDelimiter then emitCharacterEndEvent d2 else d2)
      in emitSentenceChangeEvent (morseSentence d3) previous d3)"

definition logStartTime :: "real \<Rightarrow> MicToMorseCode \<Rightarrow> MicToMorseCode" where
  "logStartTime currentTime d =
     (if currentTime - soundStopTime d < debounceTime d then d
      else if wasSound d then
        (let onTime = currentTime - soundStartTime d
         in if onTime > dashTime d then changeAudioState DashLength d
            else if onTime > dotTime d then changeAudioState DotLength d
            else d)
      else (changeAudioState ListeningSound d)
             \<lparr>lastState := Sound, soundStartTime := currentTime\<rparr>)"

definition logEndTime :: "real \<Rightarrow> MicToMorseCode \<Rightarrow> MicToMorseCode" where
  "logEndTime currentTime d =
     (if currentTime - soundStartTime d < debounceTime d then d
      else
        (let offTime = currentTime - soundStopTime d;
             lastCharacter = js_at (morseSentence d) (int (length (morseSentence d)) - 1)
         in if wasNoSound d \<and> offTime > wordTime d then
              (let d1 = changeAudioState WordDelimiterLength d
               in if length (morseSentence d1) = 0 then d1
                  else if lastCharacter = Some wordDelimiter then d1
                  else addCharacter wordDelimiter
                         (if lastCharacter = Some characterDelimiter
                          then removeLastLetterFromMorse d1 else d1))
            else if wasNoSound d \<and> offTime > characterTime d then
              (let d1 = changeAudioState CharacterDelimiterLength d
               in if length (morseSentence d1) = 0 then d1
                  else if isDelimiter lastCharacter then d1
                  else addCharacter characterDelimiter d1)
            else if wasNoSound d then changeAudioState ListeningNoSound d
            else if wasSound d then
              (let d1 = d\<lparr>soundStopTime := currentTime, lastState := NoSound\<rparr>;
                   onTime = currentTime - soundStartTime d1
               in if onTime > dashTime d1 then addCharacter (CHR ''-'') d1
                  else if onTime > dotTime d1 then addCharacter (CHR ''.'') d1
                  else d1)
            else d))"

text \<open>
  One tick of the timer callback that \<open>onMicTime\<close> returns: \<open>currentTime\<close> is the meter's
  clock and \<open>level\<close> the meter's value at the tick.
\<close>

definition onMicTime :: "real \<Rightarrow> real \<Rightarrow> MicToMorseCode \<Rightarrow> MicToMorseCode" where
  "onMicTime currentTime level d =
     (if level > threshold d then logStartTime currentTime d
      else logEndTime currentTime d)"

text \<open>
  \<open>stopMicrophone\<close> without the timer and the audio source, and the continuation that
  \<open>startMicrophone\<close> runs once the microphone is open.
\<close>

definition stopMicrophone :: "MicToMorseCode \<Rightarrow> MicToMorseCode" where
  "stopMicrophone d = changeAudioState NotListening d"

definition microphoneOpened :: "MicToMorseCode \<Rightarrow> MicToMorseCode" where
  "microphoneOpened d = changeAudioState ListeningNoSound d"

section \<open>Sequences of calls on one decoder\<close>

datatype call =
    Tick real real
  | ClearSentence
  | DeleteCharacter
  | DeleteWord
  | SetThreshold real
  | SetDotTime real
  | SetDashTime real
  | SetCharacterTime real
  | SetWordTime real
  | SetDebounceTime real
  | SetAudioTimeResolution real
  | StopMicrophone
  | MicrophoneOpened

fun perform :: "call \<Rightarrow> MicToMorseCode \<Rightarrow> MicToMorseCode" where
  "perform (Tick currentTime level) d = onMicTime currentTime level d"
| "perform ClearSentence d = clearSentence d"
| "perform DeleteCharacter d = deleteCharacter d"
| "perform DeleteWord d = deleteWord d"
| "perform (SetThreshold v) d = setThreshold v d"
| "perform (SetDotTime v) d = setDotTime v d"
| "perform (SetDashTime v) d = setDashTime v d"
| "perform (SetCharacterTime v) d = setCharacterTime v d"
| "perform (SetWordTime v) d = setWordTime v d"
| "perform (SetDebounceTime v) d = setDebounceTime v d"
| "perform (SetAudioTimeResolution v) d = setAudioTimeResolution v d"
| "perform StopMicrophone d = stopMicrophone d"
| "perform MicrophoneOpened d = microphoneOpened d"

fun run :: "MicToMorseCode \<Rightarrow> call list \<Rightarrow> MicToMorseCode" where
  "run d [] = d"
| "run d (c # cs) = run (perform c d) cs"


section \<open>The deletion the specification asks for\<close>

text \<open>
  The specification words the two delete operations as removing the trailing
  delimiter-separated segment together with its delimiter. That is: split the sentence on
  the delimiter, drop the last piece, and join the rest with the delimiter again. The
  function below is this wording, kept apart from the source's \<open>deleteCharacter\<close> and
  \<open>deleteWord\<close> so that the two can be compared.
\<close>

fun js_join :: "string list \<Rightarrow> char \<Rightarrow> string" where
  "js_join [] d = []"
| "js_join [piece] d = piece"
| "js_join (piece # pieces) d = piece @ d # js_join pieces d"

definition spec_deleteLastSegment :: "char \<Rightarrow> string \<Rightarrow> string" where
  "spec_deleteLastSegment delimiter sentence =
     js_join (butlast (js_split sentence delimiter)) delimiter"

section \<open>Predicates on sentences and on the event log\<close>

definition isSymbol :: "char \<Rightarrow> bool" where
  "isSymbol c = (c = CHR ''.'' \<or> c = CHR ''-'')"

text \<open>
  A sentence is well delimited when each of its characters is a dot or a dash, or is a
  delimiter that stands directly after a dot or a dash. The flag says whether the character
  before the rest of the string is a dot or a dash.
\<close>

fun symbolsThenDelimiter :: "bool \<Rightarrow> string \<Rightarrow> bool" where
  "symbolsThenDelimiter afterSymbol [] = True"
| "symbolsThenDelimiter afterSymbol (c # cs) =
     ((isSymbol c \<or> (isDelimiter (Some c) \<and> afterSymbol))
      \<and> symbolsThenDelimiter (isSymbol c) cs)"

definition wellDelimited :: "string \<Rightarrow> bool" where
  "wellDelimited s = symbolsThenDelimiter False s"

text \<open>An audio-state event is proper when its two states differ.\<close>

fun properAudioEvent :: "event \<Rightarrow> bool" where
  "properAudioEvent (OnAudioStateChange current previous) = (current \<noteq> previous)"
| "properAudioEvent (OnChange current previous) = True"
| "properAudioEvent (OnCharacterEnd segment) = True"
| "properAudioEvent (OnWordEnd segment) = True"

text \<open>The arguments of the character-end events of a log, in the order they fired.\<close>

fun characterEndEvents :: "event list \<Rightarrow> string option list" where
  "characterEndEvents [] = []"
| "characterEndEvents (OnCharacterEnd segment # es) = segment # characterEndEvents es"
| "characterEndEvents (e # es) = characterEndEvents es"

section \<open>Inputs used in the examples\<close>

text \<open>The decoder built with every constructor argument left out.\<close>

definition defaultDecoder :: MicToMorseCode where
  "defaultDecoder = new_MicToMorseCode None None None None None None None"

text \<open>
  The decoder of the specification's example: \<open>dotTime\<close> 0.5, \<open>dashTime\<close> 1.5,
  \<open>characterTime\<close> 2.0, \<open>wordTime\<close> 3.0, \<open>debounceTime\<close> 0.25, and the default threshold
  of -50.
\<close>

definition section8Decoder :: MicToMorseCode where
  "section8Decoder =
     new_MicToMorseCode None None (Some 0.5) (Some 1.5) (Some 2.0) (Some 3.0) (Some 0.25)"

text \<open>
  Timer ticks 0.05 apart (the default \<open>audioTimeResolution\<close> of 50 ms, in seconds): tick
  number \<open>k\<close> has the timestamp \<open>k * 0.05\<close>, and the ticks numbered \<open>first\<close> up to
  \<open>after - 1\<close> all read the meter value \<open>level\<close>.
\<close>

definition ticks :: "real \<Rightarrow> nat \<Rightarrow> nat \<Rightarrow> call list" where
  "ticks level first after = map (\<lambda>k. Tick (real k * 0.05) level) [first..<after]"

text \<open>
  Three call sequences for the default decoder. A meter value of 0 is above the threshold
  and one of -80 is below it. The first sequence is a tone from 1 to 1.6, a gap up to 3.7
  and a tone from 4 to 6; the second is a tone from 1 to 3, a gap up to 6.5 and a tone from
  7 to 8; the third is the second without its last tick.
\<close>

definition dotThenDash :: "call list" where
  "dotThenDash = [Tick 1 0, Tick 1.6 (- 80), Tick 3.7 (- 80), Tick 4 0, Tick 6 (- 80)]"

definition dashThenWordGapThenDot :: "call list" where
  "dashThenWordGapThenDot = [Tick 1 0, Tick 3 (- 80), Tick 6.5 (- 80), Tick 7 0, Tick 8 (- 80)]"

definition toneAfterWordGap :: "call list" where
  "toneAfterWordGap = [Tick 1 0, Tick 3 (- 80), Tick 6.5 (- 80), Tick 7 0]"

section \<open>States of the decoder while it processes the specification's example\<close>

definition section8Config :: "MicToMorseCode \<Rightarrow> bool" where
  "section8Config d =
     (threshold d = - 50 \<and> dotTime d = 0.5 \<and> dashTime d = 1.5 \<and> characterTime d = 2
      \<and> wordTime d = 3 \<and> debounceTime d = 0.25)"

text \<open>
  Before the end of the tone has been recorded: nothing is in the sentence,
  \<open>soundStopTime\<close> is still 0, and either no tone has been registered or one has been, at a
  time between 0.25 and 0.6.
\<close>

definition beforeToneEnd :: "MicToMorseCode \<Rightarrow> bool" where
  "beforeToneEnd d =
     (section8Config d \<and> morseSentence d = [] \<and> characterEndEvents (fired d) = []
      \<and> soundStopTime d = 0
      \<and> ((lastState d = NoSound \<and> soundStartTime d = 0)
          \<or> (lastState d = Sound \<and> 0.25 \<le> soundStartTime d \<and> soundStartTime d \<le> 0.6)))"

text \<open>
  After the end of the tone has been recorded, at a time between 0.6 and 2.5: the sentence
  holds at most one symbol and no delimiter.
\<close>

definition afterToneEnd :: "MicToMorseCode \<Rightarrow> bool" where
  "afterToneEnd d =
     (section8Config d \<and> morseSentence d \<in> {[], ''.'', ''-''}
      \<and> characterEndEvents (fired d) = []
      \<and> lastState d = NoSound \<and> 0.6 \<le> soundStopTime d \<and> soundStopTime d \<le> 2.5)"

section \<open>What each operation does to each field\<close>

lemmas decoder_defs =
  new_MicToMorseCode_def onMicTime_def logStartTime_def logEndTime_def
  changeAudioState_def addCharacter_def removeLastLetterFromMorse_def
  emitSentenceChangeEvent_def emitAudioStateChangeEvent_def emitCharacterEndEvent_def
  emitWordEndEvent_def fire_def wasSound_def wasNoSound_def isDelimiter_def
  characterDelimiter_def wordDelimiter_def js_at_def js_pop_def replace_last_char_def
  isLineTerminator_def clearSentence_def deleteCharacter_def deleteWord_def
  getMorseString_def stopMicrophone_def microphoneOpened_def
  setThreshold_def setDotTime_def setDashTime_def setCharacterTime_def setWordTime_def
  setDebounceTime_def setAudioTimeResolution_def

lemma fire_fields [simp]:
  "fired (fire e d) = fired d @ [e]"
  "currentAudioState (fire e d) = currentAudioState d"
  "lastState (fire e d) = lastState d"
  "soundStartTime (fire e d) = soundStartTime d"
  "soundStopTime (fire e d) = soundStopTime d"
  "morseSentence (fire e d) = morseSentence d"
  "threshold (fire e d) = threshold d"
  "dotTime (fire e d) = dotTime d"
  "dashTime (fire e d) = dashTime d"
  "characterTime (fire e d) = characterTime d"
  "wordTime (fire e d) = wordTime d"
  "debounceTime (fire e d) = debounceTime d"
  by (simp_all add: fire_def)

lemma changeAudioState_fields [simp]:
  "lastState (changeAudioState s d) = lastState d"
  "soundStartTime (changeAudioState s d) = soundStartTime d"
  "soundStopTime (changeAudioState s d) = soundStopTime d"
  "morseSentence (changeAudioState s d) = morseSentence d"
  "threshold (changeAudioState s d) = threshold d"
  "dotTime (changeAudioState s d) = dotTime d"
  "dashTime (changeAudioState s d) = dashTime d"
  "characterTime (changeAudioState s d) = characterTime d"
  "wordTime (changeAudioState s d) = wordTime d"
  "debounceTime (changeAudioState s d) = debounceTime d"
  by (simp_all add: changeAudioState_def emitAudioStateChangeEvent_def Let_def)

lemma changeAudioState_current [simp]:
  "currentAudioState (changeAudioState s d) = s"
  by (simp add: changeAudioState_def emitAudioStateChangeEvent_def Let_def)

lemma changeAudioState_fired:
  "fired (changeAudioState s d) =
     fired d @ (if currentAudioState d = s then [] else [OnAudioStateChange s (currentAudioState d)])"
  by (simp add: changeAudioState_def emitAudioStateChangeEvent_def Let_def)

lemma addCharacter_fields [simp]:
  "morseSentence (addCharacter c d) = morseSentence d @ [c]"
  "currentAudioState (addCharacter c d) = currentAudioState d"
  "lastState (addCharacter c d) = lastState d"
  "soundStartTime (addCharacter c d) = soundStartTime d"
  "soundStopTime (addCharacter c d) = soundStopTime d"
  "threshold (addCharacter c d) = threshold d"
  "dotTime (addCharacter c d) = dotTime d"
  "dashTime (addCharacter c d) = dashTime d"
  "characterTime (addCharacter c d) = characterTime d"
  "wordTime (addCharacter c d) = wordTime d"
  "debounceTime (addCharacter c d) = debounceTime d"
  by (simp_all add: addCharacter_def emitWordEndEvent_def emitCharacterEndEvent_def
        emitSentenceChangeEvent_def Let_def)

lemma removeLastLetterFromMorse_fields [simp]:
  "morseSentence (removeLastLetterFromMorse d) = replace_last_char (morseSentence d)"
  "currentAudioState (removeLastLetterFromMorse d) = currentAudioState d"
  "fired (removeLastLetterFromMorse d) = fired d"
  "lastState (removeLastLetterFromMorse d) = lastState d"
  "soundStartTime (removeLastLetterFromMorse d) = soundStartTime d"
  "soundStopTime (removeLastLetterFromMorse d) = soundStopTime d"
  "threshold (removeLastLetterFromMorse d) = threshold d"
  "dotTime (removeLastLetterFromMorse d) = dotTime d"
  "dashTime (removeLastLetterFromMorse d) = dashTime d"
  "characterTime (removeLastLetterFromMorse d) = characterTime d"
  "wordTime (removeLastLetterFromMorse d) = wordTime d"
  "debounceTime (removeLastLetterFromMorse d) = debounceTime d"
  by (simp_all add: removeLastLetterFromMorse_def)

lemma toneAt1:
  "run defaultDecoder [Tick 1 0] =
     defaultDecoder\<lparr>currentAudioState := ListeningSound, lastState := Sound,
       fired := [OnAudioStateChange ListeningSound NotListening], soundStartTime := 1\<rparr>"
  by (simp add: defaultDecoder_def decoder_defs Let_def)


lemma run_append: "run d (cs @ ds) = run (run d cs) ds"
  by (induction cs arbitrary: d) simp_all

lemma upt_0_numeral:
  "2 \<le> (numeral n :: nat) \<Longrightarrow> [0..<numeral n] = 0 # 1 # [2..<numeral n]"
  by (simp add: upt_conv_Cons numeral_2_eq_2)

lemma logStartTime_sentence [simp]: "morseSentence (logStartTime t d) = morseSentence d"
  by (simp add: logStartTime_def Let_def)

lemma delete_leaves_sentence:
  "morseSentence (deleteCharacter d) = morseSentence d"
  "morseSentence (deleteWord d) = morseSentence d"
  by (simp_all add: deleteCharacter_def deleteWord_def emitSentenceChangeEvent_def Let_def)

subsection \<open>Reading the last element\<close>

lemma js_at_last:
  "js_at s (int (length s) - 1) = (if s = [] then None else Some (last s))"
  by (cases s rule: rev_cases) (simp_all add: js_at_def nth_append)

lemma replace_last_char_delimiter:
  "s \<noteq> [] \<Longrightarrow> last s = characterDelimiter \<Longrightarrow> replace_last_char s = butlast s"
  by (simp add: replace_last_char_def isLineTerminator_def characterDelimiter_def)

lemma js_split_nonempty: "js_split s d \<noteq> []"
  by (induction s) (auto split: list.splits)

lemma js_split_snoc_delimiter: "js_split (s @ [d]) d = js_split s d @ [[]]"
proof (induction s)
  case Nil
  then show ?case by simp
next
  case (Cons c s)
  then show ?case
    using js_split_nonempty [of s d]
    by (cases "js_split s d") auto
qed

subsection \<open>The default decoder after some ticks\<close>

lemma toneAt5:
  "run defaultDecoder [Tick 5 0] =
     defaultDecoder\<lparr>currentAudioState := ListeningSound, lastState := Sound,
       fired := [OnAudioStateChange ListeningSound NotListening], soundStartTime := 5\<rparr>"
  by (simp add: defaultDecoder_def decoder_defs Let_def)

lemma dashHeard:
  "run defaultDecoder [Tick 1 0, Tick 3 (- 80)] =
     defaultDecoder\<lparr>currentAudioState := ListeningSound,
       fired := [OnAudioStateChange ListeningSound NotListening, OnChange ''-'' []],
       soundStartTime := 1, soundStopTime := 3, morseSentence := ''-''\<rparr>"
  by (simp add: defaultDecoder_def decoder_defs Let_def)

lemma dotThenGap:
  "run defaultDecoder [Tick 1 0, Tick 1.6 (- 80), Tick 3.7 (- 80)] =
     defaultDecoder\<lparr>currentAudioState := CharacterDelimiterLength,
       fired := [OnAudioStateChange ListeningSound NotListening, OnChange ''.'' [],
                 OnAudioStateChange CharacterDelimiterLength ListeningSound,
                 OnCharacterEnd (Some []), OnChange ''. '' ''.''],
       soundStartTime := 1, soundStopTime := 1.6, morseSentence := ''. ''\<rparr>"
  by (simp add: defaultDecoder_def decoder_defs Let_def)

lemma dashThenWordGap:
  "run defaultDecoder [Tick 1 0, Tick 3 (- 80), Tick 6.5 (- 80)] =
     defaultDecoder\<lparr>currentAudioState := WordDelimiterLength,
       fired := [OnAudioStateChange ListeningSound NotListening, OnChange ''-'' [],
                 OnAudioStateChange WordDelimiterLength ListeningSound,
                 OnWordEnd (Some []), OnChange ''-/'' ''-''],
       soundStartTime := 1, soundStopTime := 3, morseSentence := ''-/''\<rparr>"
  by (simp add: defaultDecoder_def decoder_defs Let_def)

lemma dotThenDash_sentence: "morseSentence (run defaultDecoder dotThenDash) = ''. -''"
  by (simp add: defaultDecoder_def dotThenDash_def decoder_defs Let_def)

section \<open>The end of a tone\<close>

text \<open>
  Claim C1. A silence sample that is not debounced and arrives while the listening state is
  \<open>Sound\<close> sets \<open>soundStopTime\<close> to its timestamp and the listening state to \<open>NoSound\<close>.
  With the tone's duration \<open>currentTime - soundStartTime\<close>, it appends one dash when the
  duration exceeds \<open>dashTime\<close>, one dot when the duration exceeds \<open>dotTime\<close> but not
  \<open>dashTime\<close>, and nothing when the duration does not exceed \<open>dotTime\<close>. The configuration
  is one in which \<open>dotTime\<close> does not exceed \<open>dashTime\<close>, as the specification's data model
  requires of every configuration (it asks for \<open>dashTime > dotTime\<close>); without it the first
  and the last case of the claim overlap.
\<close>

theorem tone_end_classified:
  assumes "lastState d = Sound"
      and "\<not> (currentTime - soundStartTime d < debounceTime d)"
      and "dotTime d \<le> dashTime d"
  shows "soundStopTime (logEndTime currentTime d) = currentTime
       \<and> lastState (logEndTime currentTime d) = NoSound
       \<and> (currentTime - soundStartTime d > dashTime d \<longrightarrow>
            morseSentence (logEndTime currentTime d) = morseSentence d @ ''-'')
       \<and> (dotTime d < currentTime - soundStartTime d
            \<and> currentTime - soundStartTime d \<le> dashTime d \<longrightarrow>
            morseSentence (logEndTime currentTime d) = morseSentence d @ ''.'')
       \<and> (currentTime - soundStartTime d \<le> dotTime d \<longrightarrow>
            morseSentence (logEndTime currentTime d) = morseSentence d)"
  using assms by (simp add: logEndTime_def wasSound_def wasNoSound_def Let_def)

text \<open>
  The three cases on the default decoder after a tone that began at time 1: silence at
  time 3 (duration 2), at 1.6 (duration 0.6) and at 1.3 (duration 0.3).
\<close>

theorem tone_end_classified_witness:
  "lastState (run defaultDecoder [Tick 1 0]) = Sound
   \<and> \<not> (1.3 - soundStartTime (run defaultDecoder [Tick 1 0])
            < debounceTime (run defaultDecoder [Tick 1 0]))
   \<and> dotTime (run defaultDecoder [Tick 1 0]) \<le> dashTime (run defaultDecoder [Tick 1 0])
   \<and> morseSentence (logEndTime 3 (run defaultDecoder [Tick 1 0])) = ''-''
   \<and> morseSentence (logEndTime 1.6 (run defaultDecoder [Tick 1 0])) = ''.''
   \<and> morseSentence (logEndTime 1.3 (run defaultDecoder [Tick 1 0])) = []
   \<and> soundStopTime (logEndTime 1.6 (run defaultDecoder [Tick 1 0])) = 1.6
   \<and> lastState (logEndTime 1.6 (run defaultDecoder [Tick 1 0])) = NoSound"
  using tone_end_classified [where d = "run defaultDecoder [Tick 1 0]" and currentTime = 3]
        tone_end_classified [where d = "run defaultDecoder [Tick 1 0]" and currentTime = "1.6"]
        tone_end_classified [where d = "run defaultDecoder [Tick 1 0]" and currentTime = "1.3"]
  unfolding toneAt1
  by (simp add: defaultDecoder_def new_MicToMorseCode_def logEndTime_def wasSound_def
        wasNoSound_def Let_def)

section \<open>Debounce\<close>

text \<open>
  Claim C6. A presence sample whose timestamp is less than \<open>debounceTime\<close> after
  \<open>soundStopTime\<close> is ignored: the decoder after the call is the decoder before it. The
  record holds the listening state, the audio state, both timestamps, the sentence and the
  log of fired events, so none of them changes and no event fires. The same holds for the
  timer tick that delivers the sample.
\<close>

theorem logStartTime_debounced:
  assumes "currentTime - soundStopTime d < debounceTime d"
  shows "logStartTime currentTime d = d
       \<and> (level > threshold d \<longrightarrow> onMicTime currentTime level d = d)"
  using assms by (simp add: logStartTime_def onMicTime_def)

theorem logStartTime_debounced_witness:
  "(0.1::real) - soundStopTime defaultDecoder < debounceTime defaultDecoder
   \<and> (0::real) > threshold defaultDecoder
   \<and> logStartTime 0.1 defaultDecoder = defaultDecoder
   \<and> onMicTime 0.1 0 defaultDecoder = defaultDecoder"
  using logStartTime_debounced [where d = defaultDecoder and currentTime = "0.1" and level = 0]
  by (simp add: defaultDecoder_def new_MicToMorseCode_def)

section \<open>A fresh decoder\<close>

lemma early_sample_ignored:
  assumes "soundStartTime d = 0" and "soundStopTime d = 0" and "t < debounceTime d"
  shows "logStartTime t d = d" and "logEndTime t d = d" and "onMicTime t level d = d"
  using assms by (simp_all add: logStartTime_def logEndTime_def onMicTime_def)

lemma early_samples_ignored:
  assumes "soundStartTime d = 0" and "soundStopTime d = 0"
      and "\<forall>(t, level) \<in> set samples. t < debounceTime d"
  shows "run d (map (\<lambda>(t, level). Tick t level) samples) = d"
  using assms
  by (induction samples) (auto simp: early_sample_ignored)

text \<open>
  Claim C10. On a decoder as the constructor returns it, with any arguments, a sample whose
  timestamp is less than \<open>debounceTime\<close> is ignored, whether it reports presence
  (\<open>logStartTime\<close>) or silence (\<open>logEndTime\<close>): the decoder is returned as it was, so no
  field changes and no event fires. Hence any number of timer ticks with such timestamps,
  whatever their meter values, leave the decoder as constructed, with the listening state
  \<open>NoSound\<close>: no tone is registered before \<open>debounceTime\<close>.
\<close>

theorem fresh_decoder_ignores_early_samples:
  assumes "d = new_MicToMorseCode th atr dt dsh ch wd db"
  shows "(\<forall>t. t < debounceTime d \<longrightarrow> logStartTime t d = d \<and> logEndTime t d = d)
       \<and> ((\<forall>(t, level) \<in> set samples. t < debounceTime d) \<longrightarrow>
            run d (map (\<lambda>(t, level). Tick t level) samples) = d)"
proof -
  have z: "soundStartTime d = 0" "soundStopTime d = 0"
    by (simp_all add: assms new_MicToMorseCode_def Let_def)
  show ?thesis
    using early_sample_ignored [OF z] early_samples_ignored [OF z] by blast
qed

theorem fresh_decoder_ignores_early_samples_witness:
  "(0.2::real) < debounceTime defaultDecoder
   \<and> logStartTime 0.2 defaultDecoder = defaultDecoder
   \<and> logEndTime 0.2 defaultDecoder = defaultDecoder
   \<and> run defaultDecoder (map (\<lambda>(t, level). Tick t level) [(0, 0), (0.1, - 80), (0.2, 0)])
       = defaultDecoder"
  using fresh_decoder_ignores_early_samples
    [where th = None and atr = None and dt = None and dsh = None and ch = None and wd = None
       and db = None and d = defaultDecoder and samples = "[(0, 0), (0.1, - 80), (0.2, 0)]"]
  by (simp add: defaultDecoder_def new_MicToMorseCode_def)

section \<open>Audio-state events\<close>

lemma changeAudioState_proper:
  "list_all properAudioEvent (fired d) \<Longrightarrow>
     list_all properAudioEvent (fired (changeAudioState s d))"
  by (simp add: changeAudioState_fired)

lemma addCharacter_proper:
  "list_all properAudioEvent (fired d) \<Longrightarrow>
     list_all properAudioEvent (fired (addCharacter c d))"
  by (simp add: addCharacter_def emitWordEndEvent_def emitCharacterEndEvent_def
        emitSentenceChangeEvent_def Let_def)

lemma logStartTime_proper:
  "list_all properAudioEvent (fired d) \<Longrightarrow>
     list_all properAudioEvent (fired (logStartTime t d))"
  by (simp add: logStartTime_def Let_def changeAudioState_proper)

lemma logEndTime_proper:
  "list_all properAudioEvent (fired d) \<Longrightarrow>
     list_all properAudioEvent (fired (logEndTime t d))"
  by (simp add: logEndTime_def Let_def changeAudioState_proper addCharacter_proper)

lemma perform_proper:
  "list_all properAudioEvent (fired d) \<Longrightarrow>
     list_all properAudioEvent (fired (perform c d))"
  by (cases c)
     (simp_all add: onMicTime_def logStartTime_proper logEndTime_proper changeAudioState_proper
        clearSentence_def deleteCharacter_def deleteWord_def emitSentenceChangeEvent_def
        setThreshold_def setDotTime_def setDashTime_def setCharacterTime_def setWordTime_def
        setDebounceTime_def setAudioTimeResolution_def stopMicrophone_def microphoneOpened_def
        Let_def)

lemma run_proper:
  "list_all properAudioEvent (fired d) \<Longrightarrow> list_all properAudioEvent (fired (run d cs))"
  by (induction cs arbitrary: d) (simp_all add: perform_proper)

text \<open>
  Claim C9. Let \<open>d\<close> be the decoder after any sequence of calls (timer ticks, edits,
  setters, stopping and opening the microphone) on a newly constructed decoder. Changing
  the audio state of \<open>d\<close> to the state it already holds returns \<open>d\<close> itself, so the stored
  state and the event log are as before. Every audio-state event in the log of \<open>d\<close> has a
  current state different from its previous state.
\<close>

theorem audio_state_events_differ:
  assumes "d = run (new_MicToMorseCode th atr dt dsh ch wd db) cs"
  shows "changeAudioState (currentAudioState d) d = d
       \<and> fired (changeAudioState (currentAudioState d) d) = fired d
       \<and> (\<forall>current previous.
             OnAudioStateChange current previous \<in> set (fired d) \<longrightarrow> current \<noteq> previous)"
proof -
  have "list_all properAudioEvent (fired d)"
    unfolding assms by (rule run_proper) (simp add: new_MicToMorseCode_def Let_def)
  then have "\<forall>e \<in> set (fired d). properAudioEvent e"
    by (simp add: list_all_iff)
  then have "\<forall>current previous.
      OnAudioStateChange current previous \<in> set (fired d) \<longrightarrow> current \<noteq> previous"
    by fastforce
  moreover have "changeAudioState (currentAudioState d) d = d"
    by (simp add: changeAudioState_def)
  ultimately show ?thesis by simp
qed

text \<open>
  The default decoder after a dash and a word gap: two audio-state events, each between
  two different states, and a further change to the state held gives the same decoder.
\<close>

theorem audio_state_events_differ_witness:
  "fired (run defaultDecoder [Tick 1 0, Tick 3 (- 80), Tick 6.5 (- 80)]) =
     [OnAudioStateChange ListeningSound NotListening, OnChange ''-'' [],
      OnAudioStateChange WordDelimiterLength ListeningSound,
      OnWordEnd (Some []), OnChange ''-/'' ''-'']
   \<and> ListeningSound \<noteq> NotListening \<and> WordDelimiterLength \<noteq> ListeningSound
   \<and> changeAudioState WordDelimiterLength
        (run defaultDecoder [Tick 1 0, Tick 3 (- 80), Tick 6.5 (- 80)])
      = run defaultDecoder [Tick 1 0, Tick 3 (- 80), Tick 6.5 (- 80)]"
  using audio_state_events_differ
    [where th = None and atr = None and dt = None and dsh = None and ch = None and wd = None
       and db = None and cs = "[Tick 1 0, Tick 3 (- 80), Tick 6.5 (- 80)]"
       and d = "run defaultDecoder [Tick 1 0, Tick 3 (- 80), Tick 6.5 (- 80)]"]
  by (simp add: defaultDecoder_def decoder_defs Let_def)

section \<open>The delete operations\<close>

text \<open>
  Claim C2. The source's \<open>deleteCharacter\<close> and \<open>deleteWord\<close> do not remove anything. After
  the calls \<open>dotThenDash\<close> the default decoder holds the sentence \<open>. -\<close>; after
  \<open>deleteCharacter\<close> it still does, where removing the trailing character segment and its
  delimiter gives a single dot. After the calls \<open>dashThenWordGapThenDot\<close> the sentence is
  \<open>-/.\<close>; after \<open>deleteWord\<close> it still is, where removing the trailing word segment and its
  delimiter gives a single dash.
\<close>

theorem delete_operations_leave_sentence:
  "getMorseString (run defaultDecoder dotThenDash) = ''. -''
   \<and> getMorseString (deleteCharacter (run defaultDecoder dotThenDash)) = ''. -''
   \<and> spec_deleteLastSegment characterDelimiter ''. -'' = ''.''
   \<and> getMorseString (run defaultDecoder dashThenWordGapThenDot) = ''-/.''
   \<and> getMorseString (deleteWord (run defaultDecoder dashThenWordGapThenDot)) = ''-/.''
   \<and> spec_deleteLastSegment wordDelimiter ''-/.'' = ''-''"
  by (simp add: defaultDecoder_def dotThenDash_def dashThenWordGapThenDot_def
        spec_deleteLastSegment_def decoder_defs Let_def)


section \<open>Delimiters in the sentence\<close>

lemma symbol_not_delimiter: "isSymbol c \<Longrightarrow> \<not> isDelimiter (Some c)"
  by (auto simp: isSymbol_def isDelimiter_def wordDelimiter_def characterDelimiter_def)

lemma symbolsThenDelimiter_snoc:
  "symbolsThenDelimiter p (s @ [c]) =
     (symbolsThenDelimiter p s \<and>
      (isSymbol c \<or> (isDelimiter (Some c) \<and> (if s = [] then p else isSymbol (last s)))))"
  by (induction s arbitrary: p) auto

lemma symbolsThenDelimiter_butlast:
  "symbolsThenDelimiter p s \<Longrightarrow> symbolsThenDelimiter p (butlast s)"
  by (induction s arbitrary: p) auto

lemma symbolsThenDelimiter_nth:
  "symbolsThenDelimiter p s \<Longrightarrow> i < length s \<Longrightarrow>
     isSymbol (s ! i)
     \<or> (isDelimiter (Some (s ! i)) \<and> (if i = 0 then p else isSymbol (s ! (i - 1))))"
proof (induction s arbitrary: p i)
  case Nil
  then show ?case by simp
next
  case (Cons c cs)
  show ?case
  proof (cases i)
    case 0
    with Cons.prems show ?thesis by auto
  next
    case (Suc j)
    with Cons.prems have "symbolsThenDelimiter (isSymbol c) cs" "j < length cs" by auto
    from Cons.IH [OF this] Suc show ?thesis by (cases j) auto
  qed
qed

lemma wellDelimited_Nil [simp]: "wellDelimited []"
  by (simp add: wellDelimited_def)

lemma wellDelimited_snoc:
  "wellDelimited (s @ [c]) =
     (wellDelimited s
      \<and> (isSymbol c \<or> (isDelimiter (Some c) \<and> s \<noteq> [] \<and> isSymbol (last s))))"
  by (auto simp: wellDelimited_def symbolsThenDelimiter_snoc)

lemma wellDelimited_butlast: "wellDelimited s \<Longrightarrow> wellDelimited (butlast s)"
  by (simp add: wellDelimited_def symbolsThenDelimiter_butlast)

lemma wellDelimited_last:
  assumes "wellDelimited s" and "s \<noteq> []"
  shows "isSymbol (last s)
       \<or> (isDelimiter (Some (last s)) \<and> butlast s \<noteq> [] \<and> isSymbol (last (butlast s)))"
proof -
  from assms(2) have "s = butlast s @ [last s]" by simp
  then have "wellDelimited (butlast s @ [last s])" using assms(1) by simp
  then show ?thesis unfolding wellDelimited_snoc by blast
qed

lemma wellDelimited_nth:
  assumes "wellDelimited s" and "i < length s"
      and "s ! i \<in> {characterDelimiter, wordDelimiter}"
  shows "0 < i \<and> s ! (i - 1) \<in> {CHR ''.'', CHR ''-''}"
proof -
  from assms(3) have d: "isDelimiter (Some (s ! i))" by (auto simp: isDelimiter_def)
  then have "\<not> isSymbol (s ! i)" using symbol_not_delimiter by blast
  moreover from assms(1) have "symbolsThenDelimiter False s"
    by (simp add: wellDelimited_def)
  from symbolsThenDelimiter_nth [OF this assms(2)]
  have "isSymbol (s ! i)
      \<or> (isDelimiter (Some (s ! i)) \<and> (if i = 0 then False else isSymbol (s ! (i - 1))))" .
  ultimately have "if i = 0 then False else isSymbol (s ! (i - 1))"
    by blast
  then show ?thesis by (cases "i = 0") (simp_all add: isSymbol_def)
qed

subsection \<open>Every call keeps the sentence well delimited\<close>

lemma logEndTime_wellDelimited:
  assumes "wellDelimited (morseSentence d)"
  shows "wellDelimited (morseSentence (logEndTime t d))"
proof (cases "morseSentence d = []")
  case True
  then show ?thesis
    by (simp add: logEndTime_def Let_def js_at_def wellDelimited_def isSymbol_def)
next
  case False
  from wellDelimited_last [OF assms False]
  consider (sym) "isSymbol (last (morseSentence d))"
    | (del) "isDelimiter (Some (last (morseSentence d)))" "butlast (morseSentence d) \<noteq> []"
        "isSymbol (last (butlast (morseSentence d)))"
    by blast
  then show ?thesis
  proof cases
    case sym
    then have nd: "\<not> isDelimiter (Some (last (morseSentence d)))"
      by (rule symbol_not_delimiter)
    then have "last (morseSentence d) \<noteq> wordDelimiter"
      "last (morseSentence d) \<noteq> characterDelimiter"
      by (auto simp: isDelimiter_def)
    with assms False sym nd show ?thesis
      by (simp add: logEndTime_def Let_def js_at_last wellDelimited_snoc isSymbol_def
            isDelimiter_def)
  next
    case del
    with assms False show ?thesis
      by (auto simp: logEndTime_def Let_def js_at_last wellDelimited_snoc isSymbol_def
            replace_last_char_delimiter wellDelimited_butlast isDelimiter_def)
  qed
qed

lemma perform_wellDelimited:
  "wellDelimited (morseSentence d) \<Longrightarrow> wellDelimited (morseSentence (perform c d))"
  by (cases c)
     (simp_all add: onMicTime_def logEndTime_wellDelimited
        clearSentence_def deleteCharacter_def deleteWord_def emitSentenceChangeEvent_def
        setThreshold_def setDotTime_def setDashTime_def setCharacterTime_def setWordTime_def
        setDebounceTime_def setAudioTimeResolution_def stopMicrophone_def microphoneOpened_def
        Let_def)

lemma run_wellDelimited:
  "wellDelimited (morseSentence d) \<Longrightarrow> wellDelimited (morseSentence (run d cs))"
  by (induction cs arbitrary: d) (simp_all add: perform_wellDelimited)

text \<open>
  Claim C8. Start from any decoder whose sentence is empty and perform any sequence of
  calls: timer ticks with any timestamps and meter values, \<open>clearSentence\<close>,
  \<open>deleteCharacter\<close>, \<open>deleteWord\<close>, the setters, and stopping and opening the
  microphone. In the resulting sentence every
  delimiter, of either kind, stands at a position after the first and directly after a dot
  or a dash. So the sentence does not begin with a delimiter, and no two delimiters of any
  combination are adjacent.
\<close>

theorem delimiters_follow_symbols:
  assumes "morseSentence d = []"
  shows "(\<forall>i < length (morseSentence (run d cs)).
            morseSentence (run d cs) ! i \<in> {characterDelimiter, wordDelimiter} \<longrightarrow>
            0 < i \<and> morseSentence (run d cs) ! (i - 1) \<in> {CHR ''.'', CHR ''-''})
       \<and> (morseSentence (run d cs) \<noteq> [] \<longrightarrow>
            hd (morseSentence (run d cs)) \<notin> {characterDelimiter, wordDelimiter})
       \<and> (\<forall>i. Suc i < length (morseSentence (run d cs)) \<longrightarrow>
            \<not> (morseSentence (run d cs) ! i \<in> {characterDelimiter, wordDelimiter}
               \<and> morseSentence (run d cs) ! Suc i \<in> {characterDelimiter, wordDelimiter}))"
proof -
  let ?s = "morseSentence (run d cs)"
  have wd: "wellDelimited ?s"
    by (rule run_wellDelimited) (simp add: assms)
  have main: "\<forall>i < length ?s. ?s ! i \<in> {characterDelimiter, wordDelimiter} \<longrightarrow>
            0 < i \<and> ?s ! (i - 1) \<in> {CHR ''.'', CHR ''-''}"
    using wellDelimited_nth [OF wd] by blast
  have first: "?s \<noteq> [] \<longrightarrow> hd ?s \<notin> {characterDelimiter, wordDelimiter}"
  proof
    assume ne: "?s \<noteq> []"
    then have "0 < length ?s" by simp
    with main have "?s ! 0 \<notin> {characterDelimiter, wordDelimiter}" by blast
    with ne show "hd ?s \<notin> {characterDelimiter, wordDelimiter}" by (simp add: hd_conv_nth)
  qed
  have adjacent: "\<forall>i. Suc i < length ?s \<longrightarrow>
            \<not> (?s ! i \<in> {characterDelimiter, wordDelimiter}
               \<and> ?s ! Suc i \<in> {characterDelimiter, wordDelimiter})"
  proof (intro allI impI notI)
    fix i
    assume len: "Suc i < length ?s"
      and both: "?s ! i \<in> {characterDelimiter, wordDelimiter}
               \<and> ?s ! Suc i \<in> {characterDelimiter, wordDelimiter}"
    from main len both have "?s ! (Suc i - 1) \<in> {CHR ''.'', CHR ''-''}" by blast
    with both show False by (auto simp: characterDelimiter_def wordDelimiter_def)
  qed
  from main first adjacent show ?thesis by blast
qed

text \<open>
  The default decoder after \<open>dotThenDash\<close>: the delimiter at position 1 stands after the dot
  at position 0.
\<close>

theorem delimiters_follow_symbols_witness:
  "morseSentence defaultDecoder = []
   \<and> morseSentence (run defaultDecoder dotThenDash) = ''. -''
   \<and> morseSentence (run defaultDecoder dotThenDash) ! 1 = characterDelimiter
   \<and> morseSentence (run defaultDecoder dotThenDash) ! 0 = CHR ''.''"
  using delimiters_follow_symbols [where d = defaultDecoder and cs = dotThenDash]
  unfolding dotThenDash_sentence
  by (simp add: defaultDecoder_def new_MicToMorseCode_def characterDelimiter_def)

section \<open>A word gap after a character gap\<close>

text \<open>
  Claim C4. Let \<open>d\<close> be a decoder reached by any calls from an empty sentence, with the
  listening state \<open>NoSound\<close> and a non-empty sentence whose last character is the character
  delimiter. A silence sample that is not debounced and whose time since \<open>soundStopTime\<close>
  exceeds \<open>wordTime\<close> replaces that character delimiter by the word delimiter: the new
  sentence is the old one without its last character, followed by the word delimiter. What
  stands before the word delimiter is not empty and ends in a dot or a dash, so the new
  sentence ends in exactly one delimiter, and not in a character delimiter followed by a
  word delimiter.
\<close>

theorem word_gap_replaces_character_delimiter:
  assumes "morseSentence d0 = []" and "d = run d0 cs"
      and "lastState d = NoSound"
      and "\<not> (currentTime - soundStartTime d < debounceTime d)"
      and "currentTime - soundStopTime d > wordTime d"
      and "morseSentence d \<noteq> []"
      and "last (morseSentence d) = characterDelimiter"
  shows "morseSentence (logEndTime currentTime d) = butlast (morseSentence d) @ [wordDelimiter]
       \<and> butlast (morseSentence d) \<noteq> []
       \<and> last (butlast (morseSentence d)) \<in> {CHR ''.'', CHR ''-''}"
proof -
  have wd: "wellDelimited (morseSentence d)"
    unfolding assms(2) by (rule run_wellDelimited) (simp add: assms(1))
  have "\<not> isSymbol (last (morseSentence d))"
    using assms(7) by (simp add: isSymbol_def characterDelimiter_def)
  with wellDelimited_last [OF wd assms(6)]
  have body: "butlast (morseSentence d) \<noteq> []" "isSymbol (last (butlast (morseSentence d)))"
    by blast+
  have "characterDelimiter \<noteq> wordDelimiter"
    by (simp add: characterDelimiter_def wordDelimiter_def)
  then have "morseSentence (logEndTime currentTime d)
      = butlast (morseSentence d) @ [wordDelimiter]"
    using assms(3-7)
    by (simp add: logEndTime_def Let_def wasNoSound_def js_at_last replace_last_char_delimiter)
  with body show ?thesis by (simp add: isSymbol_def)
qed

text \<open>
  The default decoder after a dot and a character gap holds a dot and a character
  delimiter; silence at time 4.7, which is 3.1 after the end of the tone, turns the
  sentence into a dot and a word delimiter.
\<close>

theorem word_gap_replaces_character_delimiter_witness:
  "morseSentence defaultDecoder = []
   \<and> morseSentence (run defaultDecoder [Tick 1 0, Tick 1.6 (- 80), Tick 3.7 (- 80)]) = ''. ''
   \<and> lastState (run defaultDecoder [Tick 1 0, Tick 1.6 (- 80), Tick 3.7 (- 80)]) = NoSound
   \<and> \<not> (4.7 - soundStartTime (run defaultDecoder [Tick 1 0, Tick 1.6 (- 80), Tick 3.7 (- 80)])
            < debounceTime (run defaultDecoder [Tick 1 0, Tick 1.6 (- 80), Tick 3.7 (- 80)]))
   \<and> 4.7 - soundStopTime (run defaultDecoder [Tick 1 0, Tick 1.6 (- 80), Tick 3.7 (- 80)])
       > wordTime (run defaultDecoder [Tick 1 0, Tick 1.6 (- 80), Tick 3.7 (- 80)])
   \<and> morseSentence
       (logEndTime 4.7 (run defaultDecoder [Tick 1 0, Tick 1.6 (- 80), Tick 3.7 (- 80)]))
       = ''./''"
  using word_gap_replaces_character_delimiter
    [where ?d0.0 = defaultDecoder and cs = "[Tick 1 0, Tick 1.6 (- 80), Tick 3.7 (- 80)]"
       and d = "run defaultDecoder [Tick 1 0, Tick 1.6 (- 80), Tick 3.7 (- 80)]"
       and currentTime = "4.7"]
  unfolding dotThenGap
  by (simp add: defaultDecoder_def new_MicToMorseCode_def characterDelimiter_def
        wordDelimiter_def)


section \<open>Silence after a word delimiter\<close>

lemma silence_after_word_delimiter:
  assumes "lastState d = NoSound" and "morseSentence d \<noteq> []"
      and "last (morseSentence d) = wordDelimiter"
  shows "morseSentence (logEndTime t d) = morseSentence d"
    and "lastState (logEndTime t d) = NoSound"
    and "soundStopTime (logEndTime t d) = soundStopTime d"
    and "threshold (logEndTime t d) = threshold d"
    and "wordTime (logEndTime t d) = wordTime d"
  using assms
  by (simp_all add: logEndTime_def Let_def wasNoSound_def wasSound_def js_at_last
        isDelimiter_def)

lemma silences_after_word_delimiter:
  assumes "lastState d = NoSound" and "morseSentence d \<noteq> []"
      and "last (morseSentence d) = wordDelimiter"
      and "\<forall>(t, level) \<in> set samples.
             \<not> level > threshold d \<and> t - soundStopTime d > wordTime d"
  shows "morseSentence (run d (map (\<lambda>(t, level). Tick t level) samples)) = morseSentence d"
  using assms
proof (induction samples arbitrary: d)
  case Nil
  then show ?case by simp
next
  case (Cons sample samples)
  obtain t level where sample: "sample = (t, level)" by (cases sample)
  let ?d = "logEndTime t d"
  from Cons.prems(4) sample have quiet: "\<not> level > threshold d" by simp
  note step = silence_after_word_delimiter [OF Cons.prems(1-3), of t]
  have "morseSentence (run ?d (map (\<lambda>(t, level). Tick t level) samples)) = morseSentence ?d"
  proof (rule Cons.IH)
    show "lastState ?d = NoSound" by (rule step)
    show "morseSentence ?d \<noteq> []" using Cons.prems(2) by (simp add: step)
    show "last (morseSentence ?d) = wordDelimiter" using Cons.prems(3) by (simp add: step)
    show "\<forall>(t, level) \<in> set samples.
            \<not> level > threshold ?d \<and> t - soundStopTime ?d > wordTime ?d"
      using Cons.prems(4) by (simp add: step)
  qed
  with quiet sample show ?case by (simp add: onMicTime_def step)
qed

text \<open>
  Claim C5, as stated, fails on a silence sample that ends a tone. After the calls
  \<open>toneAfterWordGap\<close> the default decoder holds a dash and a word delimiter, and a tone
  that began at time 7 is sounding. The silence sample at time 8 comes 5 after
  \<open>soundStopTime\<close>, more than \<open>wordTime\<close>, and it appends a dot.
\<close>

theorem silence_after_word_delimiter_appends_dot:
  "last (morseSentence (run defaultDecoder toneAfterWordGap)) = wordDelimiter
   \<and> \<not> (- 80 > threshold (run defaultDecoder toneAfterWordGap))
   \<and> 8 - soundStopTime (run defaultDecoder toneAfterWordGap)
        > wordTime (run defaultDecoder toneAfterWordGap)
   \<and> morseSentence (run defaultDecoder toneAfterWordGap) = ''-/''
   \<and> morseSentence (onMicTime 8 (- 80) (run defaultDecoder toneAfterWordGap)) = ''-/.''"
  by (simp add: defaultDecoder_def toneAfterWordGap_def decoder_defs Let_def)

text \<open>
  Claim C5, amended. Let \<open>d\<close> be the decoder after any sequence of calls from an empty
  sentence. Its sentence has no two adjacent word delimiters. If the listening state of
  \<open>d\<close> is \<open>NoSound\<close> and the last character of its sentence is the word delimiter, then any
  number of further silence samples, each with a time since \<open>soundStopTime\<close> above
  \<open>wordTime\<close>, leave the sentence as it is.
\<close>

theorem no_second_word_delimiter:
  assumes "morseSentence d0 = []" and "d = run d0 cs"
  shows "(\<forall>i. Suc i < length (morseSentence d) \<longrightarrow>
            \<not> (morseSentence d ! i = wordDelimiter \<and> morseSentence d ! Suc i = wordDelimiter))
       \<and> (lastState d = NoSound \<and> morseSentence d \<noteq> []
           \<and> last (morseSentence d) = wordDelimiter
           \<and> (\<forall>(t, level) \<in> set samples.
                  \<not> level > threshold d \<and> t - soundStopTime d > wordTime d) \<longrightarrow>
            morseSentence (run d (map (\<lambda>(t, level). Tick t level) samples)) = morseSentence d)"
proof -
  have wd: "wellDelimited (morseSentence d)"
    unfolding assms(2) by (rule run_wellDelimited) (simp add: assms(1))
  have "\<forall>i. Suc i < length (morseSentence d) \<longrightarrow>
            \<not> (morseSentence d ! i = wordDelimiter \<and> morseSentence d ! Suc i = wordDelimiter)"
  proof (intro allI impI notI)
    fix i
    assume len: "Suc i < length (morseSentence d)"
      and both: "morseSentence d ! i = wordDelimiter \<and> morseSentence d ! Suc i = wordDelimiter"
    from both have "morseSentence d ! Suc i \<in> {characterDelimiter, wordDelimiter}" by simp
    from wellDelimited_nth [OF wd len this]
    have "morseSentence d ! i \<in> {CHR ''.'', CHR ''-''}" by simp
    with both show False by (auto simp: wordDelimiter_def)
  qed
  then show ?thesis
    using silences_after_word_delimiter [of d samples] by blast
qed

text \<open>
  The default decoder after a dash and a word gap: three more silence samples, at times 7,
  8 and 20, leave the sentence as a dash and a word delimiter.
\<close>

theorem no_second_word_delimiter_witness:
  "morseSentence defaultDecoder = []
   \<and> morseSentence (run defaultDecoder [Tick 1 0, Tick 3 (- 80), Tick 6.5 (- 80)]) = ''-/''
   \<and> lastState (run defaultDecoder [Tick 1 0, Tick 3 (- 80), Tick 6.5 (- 80)]) = NoSound
   \<and> 7 - soundStopTime (run defaultDecoder [Tick 1 0, Tick 3 (- 80), Tick 6.5 (- 80)])
       > wordTime (run defaultDecoder [Tick 1 0, Tick 3 (- 80), Tick 6.5 (- 80)])
   \<and> morseSentence (run (run defaultDecoder [Tick 1 0, Tick 3 (- 80), Tick 6.5 (- 80)])
        (map (\<lambda>(t, level). Tick t level) [(7, - 80), (8, - 80), (20, - 80)])) = ''-/''"
  using no_second_word_delimiter
    [where ?d0.0 = defaultDecoder and cs = "[Tick 1 0, Tick 3 (- 80), Tick 6.5 (- 80)]"
       and d = "run defaultDecoder [Tick 1 0, Tick 3 (- 80), Tick 6.5 (- 80)]"
       and samples = "[(7, - 80), (8, - 80), (20, - 80)]"]
  unfolding dashThenWordGap
  by (simp add: defaultDecoder_def new_MicToMorseCode_def wordDelimiter_def)

section \<open>Samples out of order\<close>

text \<open>
  Claim C7, as stated, fails: no function of the class raises an error or compares a
  timestamp with an earlier one. On the default decoder a tone starts at time 1 and is
  still sounding at time 3. A silence sample with the earlier timestamp 2 is then taken as
  the end of the tone: it appends a dot and sets \<open>soundStopTime\<close> to 2.
\<close>

theorem out_of_order_sample_appends_dot:
  "morseSentence (run defaultDecoder [Tick 1 0, Tick 3 0]) = []
   \<and> morseSentence (run defaultDecoder [Tick 1 0, Tick 3 0, Tick 2 (- 80)]) = ''.''
   \<and> soundStopTime (run defaultDecoder [Tick 1 0, Tick 3 0, Tick 2 (- 80)]) = 2
   \<and> lastState (run defaultDecoder [Tick 1 0, Tick 3 0, Tick 2 (- 80)]) = NoSound"
  by (simp add: defaultDecoder_def decoder_defs Let_def)

text \<open>
  Claim C7, amended. A sample with a timestamp smaller than one delivered before is
  processed by the same rules as any other, on the differences between its timestamp and
  the two stored timestamps, which may be negative. Both stored timestamps were delivered
  before (or are the initial 0). With a non-negative \<open>debounceTime\<close>, a presence sample
  older than \<open>soundStopTime\<close> and a silence sample older than \<open>soundStartTime\<close> are ignored
  as debounce. With non-negative gap times, a silence sample older than \<open>soundStopTime\<close>
  that is not debounced and arrives in the listening state \<open>NoSound\<close> only sets the audio
  state to \<open>ListeningNoSound\<close>. A silence sample that is not debounced and arrives in the
  listening state \<open>Sound\<close> ends the tone at its own timestamp, whatever was delivered
  before.
\<close>

theorem stale_samples_processed:
  "(t < soundStopTime d \<and> 0 \<le> debounceTime d \<longrightarrow> logStartTime t d = d)
 \<and> (t < soundStartTime d \<and> 0 \<le> debounceTime d \<longrightarrow> logEndTime t d = d)
 \<and> (t < soundStopTime d \<and> \<not> (t - soundStartTime d < debounceTime d) \<and> lastState d = NoSound
      \<and> 0 \<le> characterTime d \<and> 0 \<le> wordTime d \<longrightarrow>
      logEndTime t d = changeAudioState ListeningNoSound d)
 \<and> (\<not> (t - soundStartTime d < debounceTime d) \<and> lastState d = Sound \<longrightarrow>
      soundStopTime (logEndTime t d) = t \<and> lastState (logEndTime t d) = NoSound)"
  by (simp add: logStartTime_def logEndTime_def Let_def wasNoSound_def wasSound_def)

text \<open>
  One instance of each part on the default decoder: presence at time 2 after a tone that
  ended at 3; silence at time 1 during a tone that began at 5; silence at time 2 after a
  tone from 1 to 3; silence at time 2 during a tone that began at 1.
\<close>

theorem stale_samples_processed_witness:
  "logStartTime 2 (run defaultDecoder [Tick 1 0, Tick 3 (- 80)])
     = run defaultDecoder [Tick 1 0, Tick 3 (- 80)]
   \<and> logEndTime 1 (run defaultDecoder [Tick 5 0]) = run defaultDecoder [Tick 5 0]
   \<and> logEndTime 2 (run defaultDecoder [Tick 1 0, Tick 3 (- 80)])
     = changeAudioState ListeningNoSound (run defaultDecoder [Tick 1 0, Tick 3 (- 80)])
   \<and> soundStopTime (logEndTime 2 (run defaultDecoder [Tick 1 0])) = 2
   \<and> (2::real) < soundStopTime (run defaultDecoder [Tick 1 0, Tick 3 (- 80)])
   \<and> (1::real) < soundStartTime (run defaultDecoder [Tick 5 0])
   \<and> lastState (run defaultDecoder [Tick 1 0, Tick 3 (- 80)]) = NoSound
   \<and> lastState (run defaultDecoder [Tick 1 0]) = Sound"
  using stale_samples_processed [where t = 2 and d = "run defaultDecoder [Tick 1 0, Tick 3 (- 80)]"]
        stale_samples_processed [where t = 1 and d = "run defaultDecoder [Tick 5 0]"]
        stale_samples_processed [where t = 2 and d = "run defaultDecoder [Tick 1 0]"]
  unfolding dashHeard toneAt5 toneAt1
  by (simp add: defaultDecoder_def new_MicToMorseCode_def)


section \<open>The specification's example trace\<close>

lemma characterEndEvents_append:
  "characterEndEvents (es @ fs) = characterEndEvents es @ characterEndEvents fs"
  by (induction es rule: characterEndEvents.induct) simp_all

lemma changeAudioState_characterEndEvents [simp]:
  "characterEndEvents (fired (changeAudioState s d)) = characterEndEvents (fired d)"
  by (simp add: changeAudioState_fired characterEndEvents_append)

lemma addCharacter_symbol_characterEndEvents:
  "c \<noteq> characterDelimiter \<Longrightarrow>
     characterEndEvents (fired (addCharacter c d)) = characterEndEvents (fired d)"
  by (simp add: addCharacter_def emitWordEndEvent_def emitSentenceChangeEvent_def Let_def
        characterEndEvents_append)

lemma addCharacter_delimiter_characterEndEvents:
  "\<exists>segment. characterEndEvents (fired (addCharacter characterDelimiter d)) =
     characterEndEvents (fired d) @ [segment]"
  by (simp add: addCharacter_def emitWordEndEvent_def emitCharacterEndEvent_def
        emitSentenceChangeEvent_def Let_def characterEndEvents_append
        characterDelimiter_def wordDelimiter_def)

subsection \<open>The decoder during the tone and during the gap\<close>

lemma section8Decoder_beforeToneEnd: "beforeToneEnd section8Decoder"
  by (simp add: beforeToneEnd_def section8Config_def section8Decoder_def new_MicToMorseCode_def)

lemma tone_sample_beforeToneEnd:
  assumes "beforeToneEnd d" and "0 \<le> t" and "t \<le> 0.6"
  shows "beforeToneEnd (logStartTime t d)"
  using assms
  by (auto simp: beforeToneEnd_def section8Config_def logStartTime_def wasSound_def Let_def)

lemma gap_sample_beforeToneEnd:
  assumes "beforeToneEnd d" and "0.6 \<le> t" and "t \<le> 2.5"
  shows "beforeToneEnd (logEndTime t d) \<or> afterToneEnd (logEndTime t d)"
proof (cases "lastState d")
  case NoSound
  with assms have "beforeToneEnd (logEndTime t d)"
    by (simp add: beforeToneEnd_def section8Config_def logEndTime_def wasSound_def
          wasNoSound_def Let_def js_at_def)
  then show ?thesis ..
next
  case Sound
  show ?thesis
  proof (cases "t - soundStartTime d < debounceTime d")
    case True
    with assms(1) show ?thesis by (simp add: logEndTime_def)
  next
    case False
    with Sound assms have "afterToneEnd (logEndTime t d)"
      by (simp add: beforeToneEnd_def afterToneEnd_def section8Config_def logEndTime_def
            wasSound_def wasNoSound_def Let_def addCharacter_symbol_characterEndEvents
            characterDelimiter_def)
    then show ?thesis ..
  qed
qed

lemma gap_sample_afterToneEnd:
  assumes "afterToneEnd d" and "0.6 \<le> t" and "t \<le> 2.5"
  shows "afterToneEnd (logEndTime t d)"
proof (cases "t - soundStartTime d < debounceTime d")
  case True
  with assms(1) show ?thesis by (simp add: logEndTime_def)
next
  case False
  from assms have "\<not> t - soundStopTime d > 2" by (simp add: afterToneEnd_def)
  with False assms show ?thesis
    by (simp add: afterToneEnd_def section8Config_def logEndTime_def wasSound_def
          wasNoSound_def Let_def)
qed

lemma tone_beforeToneEnd:
  assumes "beforeToneEnd d"
      and "\<forall>(t, level) \<in> set tone. 0 \<le> t \<and> t \<le> 0.6 \<and> level > - 50"
  shows "beforeToneEnd (run d (map (\<lambda>(t, level). Tick t level) tone))"
  using assms
proof (induction tone arbitrary: d)
  case Nil
  then show ?case by simp
next
  case (Cons sample tone)
  obtain t level where sample: "sample = (t, level)" by (cases sample)
  with Cons.prems have now: "0 \<le> t" "t \<le> 0.6" "level > threshold d"
    by (simp_all add: beforeToneEnd_def section8Config_def)
  from tone_sample_beforeToneEnd [OF Cons.prems(1) now(1,2)]
  have "beforeToneEnd (run (logStartTime t d) (map (\<lambda>(t, level). Tick t level) tone))"
    using Cons.prems(2) by (intro Cons.IH) simp_all
  with now(3) sample show ?case by (simp add: onMicTime_def)
qed

lemma gap_afterToneEnd:
  assumes "beforeToneEnd d \<or> afterToneEnd d"
      and "\<forall>(t, level) \<in> set gap. 0.6 \<le> t \<and> t \<le> 2.5 \<and> \<not> level > - 50"
  shows "beforeToneEnd (run d (map (\<lambda>(t, level). Tick t level) gap))
       \<or> afterToneEnd (run d (map (\<lambda>(t, level). Tick t level) gap))"
  using assms
proof (induction gap arbitrary: d)
  case Nil
  then show ?case by simp
next
  case (Cons sample gap)
  obtain t level where sample: "sample = (t, level)" by (cases sample)
  with Cons.prems have now: "0.6 \<le> t" "t \<le> 2.5" "\<not> level > threshold d"
    by (auto simp: beforeToneEnd_def afterToneEnd_def section8Config_def)
  have "beforeToneEnd (logEndTime t d) \<or> afterToneEnd (logEndTime t d)"
    using Cons.prems(1) gap_sample_beforeToneEnd [OF _ now(1,2)]
      gap_sample_afterToneEnd [OF _ now(1,2)] by blast
  then have "beforeToneEnd (run (logEndTime t d) (map (\<lambda>(t, level). Tick t level) gap))
       \<or> afterToneEnd (run (logEndTime t d) (map (\<lambda>(t, level). Tick t level) gap))"
    using Cons.prems(2) by (intro Cons.IH) simp_all
  with now(3) sample show ?case by (simp add: onMicTime_def)
qed

text \<open>
  Claim C3, as stated, fails. The example decoder is given presence at every tick from
  time 0 to 0.6 and silence at every tick from 0.6 to 2.5, the ticks 0.05 apart. The
  presence samples before time 0.25 are debounced against the initial \<open>soundStopTime\<close> of
  0, so the tone is registered at 0.25; at its end, at 0.6, it has lasted 0.35, which does
  not exceed \<open>dotTime\<close>. The sentence stays empty and no character-end event fires.
\<close>

theorem section8_trace_yields_nothing:
  "morseSentence (run section8Decoder (ticks 0 0 13 @ ticks (- 80) 12 51)) = []
   \<and> morseSentence (run section8Decoder (ticks 0 0 13 @ ticks (- 80) 12 51)) \<noteq> ''. ''
   \<and> characterEndEvents (fired (run section8Decoder (ticks 0 0 13 @ ticks (- 80) 12 51))) = []"
  by (simp add: section8Decoder_def ticks_def upt_0_numeral decoder_defs Let_def)

text \<open>
  Claim C3, amended. However the example trace is sampled (presence samples with
  timestamps from 0 to 0.6, then silence samples with timestamps from 0.6 to 2.5, in any
  number and order), the example decoder ends with a sentence that is empty or a single dot
  or dash, without a delimiter, and no character-end event fires: the silence lasts at most
  1.9 after the end of the tone, which does not exceed \<open>characterTime\<close>. With presence at
  every tick from time 0 to 0.85 and silence at every tick from 0.9 to 2.95, the sentence
  is a dot followed by the character delimiter, and exactly one character-end event fires.
  On every decoder, appending the character delimiter fires exactly one character-end
  event.
\<close>

theorem section8_trace:
  assumes "\<forall>(t, level) \<in> set tone. 0 \<le> t \<and> t \<le> 0.6 \<and> level > threshold section8Decoder"
      and "\<forall>(t, level) \<in> set gap.
             0.6 \<le> t \<and> t \<le> 2.5 \<and> \<not> level > threshold section8Decoder"
  shows "morseSentence (run section8Decoder (map (\<lambda>(t, level). Tick t level) (tone @ gap)))
           \<in> {[], ''.'', ''-''}
       \<and> characterEndEvents
           (fired (run section8Decoder (map (\<lambda>(t, level). Tick t level) (tone @ gap)))) = []
       \<and> morseSentence (run section8Decoder (ticks 0 0 18 @ ticks (- 80) 18 60)) = ''. ''
       \<and> length (characterEndEvents
           (fired (run section8Decoder (ticks 0 0 18 @ ticks (- 80) 18 60)))) = 1
       \<and> (\<exists>segment. characterEndEvents (fired (addCharacter characterDelimiter d)) =
             characterEndEvents (fired d) @ [segment])"
proof -
  let ?d = "run section8Decoder (map (\<lambda>(t, level). Tick t level) (tone @ gap))"
  have th: "threshold section8Decoder = - 50"
    by (simp add: section8Decoder_def new_MicToMorseCode_def)
  have "beforeToneEnd (run section8Decoder (map (\<lambda>(t, level). Tick t level) tone))"
    using assms(1) unfolding th by (rule tone_beforeToneEnd [OF section8Decoder_beforeToneEnd])
  then have "beforeToneEnd (run section8Decoder (map (\<lambda>(t, level). Tick t level) tone))
       \<or> afterToneEnd (run section8Decoder (map (\<lambda>(t, level). Tick t level) tone))" ..
  from gap_afterToneEnd [OF this, of gap] assms(2)
  have "beforeToneEnd ?d \<or> afterToneEnd ?d"
    unfolding th map_append run_append by blast
  then have general:
    "morseSentence ?d \<in> {[], ''.'', ''-''} \<and> characterEndEvents (fired ?d) = []"
    by (auto simp: beforeToneEnd_def afterToneEnd_def)
  have shifted: "morseSentence (run section8Decoder (ticks 0 0 18 @ ticks (- 80) 18 60)) = ''. ''
       \<and> length (characterEndEvents
           (fired (run section8Decoder (ticks 0 0 18 @ ticks (- 80) 18 60)))) = 1"
    by (simp add: section8Decoder_def ticks_def upt_0_numeral decoder_defs Let_def)
  from general shifted addCharacter_delimiter_characterEndEvents [of d]
  show ?thesis by blast
qed

text \<open>
  A sparse sampling of the example trace: presence at time 0.3, silence at times 1 and 2.5.
  The sentence is a single dot.
\<close>

theorem section8_trace_witness:
  "(0.3::real) \<le> 0.6 \<and> 0 > threshold section8Decoder
   \<and> morseSentence (run section8Decoder
        (map (\<lambda>(t, level). Tick t level) ([(0.3, 0)] @ [(1, - 80), (2.5, - 80)]))) = ''.''
   \<and> characterEndEvents (fired (run section8Decoder
        (map (\<lambda>(t, level). Tick t level) ([(0.3, 0)] @ [(1, - 80), (2.5, - 80)])))) = []"
  using section8_trace [where tone = "[(0.3, 0)]" and gap = "[(1, - 80), (2.5, - 80)]"]
  by (simp add: section8Decoder_def decoder_defs Let_def)

text \<open>
  The argument of the character-end event: the event is fired after the delimiter has been
  appended, so the last piece of the split sentence is the empty string.
\<close>

lemma character_end_segment_is_empty:
  "fired (addCharacter characterDelimiter d) =
     fired d @ [OnCharacterEnd (Some []),
                OnChange (morseSentence d @ [characterDelimiter]) (morseSentence d)]"
proof -
  have "characterDelimiter \<noteq> wordDelimiter"
    by (simp add: characterDelimiter_def wordDelimiter_def)
  moreover have "js_split (morseSentence d @ [characterDelimiter]) characterDelimiter \<noteq> []"
    by (rule js_split_nonempty)
  ultimately show ?thesis
    by (simp add: addCharacter_def emitCharacterEndEvent_def emitSentenceChangeEvent_def
          Let_def js_at_last js_split_snoc_delimiter)
qed

end
